theory Spec2Isabelle
  imports Main "HOL-Library.Word"
begin

unbundle bit_operations_syntax

section \<open>Python values used by the driver\<close>

text \<open>
  The driver \<^verbatim>\<open>MKSServo42C\<close> (file \<^verbatim>\<open>mksservo42c_10/mksservo42c.py\<close>) works on
  Python's unbounded integers (\<open>int\<close>), on \<^verbatim>\<open>bytes\<close> objects (lists of 8-bit values)
  and on \<^verbatim>\<open>str\<close> direction tokens. An exception is a value of \<open>py_error\<close>.
  \<open>ConnectionError\<close> is Python's builtin exception of that name; no statement of the
  driver raises it, it is listed so that properties can mention it.
\<close>

type_synonym byte = "8 word"
type_synonym bytes = "byte list"

datatype py_error =
    ValueError
  | OverflowError
  | IndexError
  | SerialException
  | ConnectionError

text \<open>
  \<^verbatim>\<open>x.to_bytes(length, 'big')\<close> with the default \<^verbatim>\<open>signed=False\<close>: the \<open>length\<close>
  bytes of \<open>x\<close>, most significant first; OverflowError when \<open>x\<close> is negative or
  does not fit.
\<close>

fun be_bytes :: "nat \<Rightarrow> int \<Rightarrow> bytes" where
  "be_bytes 0 x = []"
| "be_bytes (Suc n) x = be_bytes n (x div 256) @ [word_of_int x]"

definition to_bytes :: "int \<Rightarrow> nat \<Rightarrow> py_error + bytes" where
  "to_bytes x n = (if x < 0 \<or> 256 ^ n \<le> x then Inl OverflowError else Inr (be_bytes n x))"

text \<open>
  \<^verbatim>\<open>int.from_bytes(bs, byteorder='big', signed=...)\<close>: the big-endian value of the
  bytes, read as two's complement over \<open>8 * len(bs)\<close> bits when \<open>signed\<close> is set. The empty
  bytes object decodes to 0 either way.
\<close>

definition from_bytes :: "bytes \<Rightarrow> bool \<Rightarrow> int" where
  "from_bytes bs is_signed =
     (let u = foldl (\<lambda>acc b. acc * 256 + uint b) 0 bs
      in if is_signed \<and> bs \<noteq> [] \<and> 2 ^ (8 * length bs - 1) \<le> u
         then u - 2 ^ (8 * length bs) else u)"

text \<open>
  The slice \<^verbatim>\<open>xs[i:j]\<close> for the literal bounds \<open>0 \<le> i \<le> j\<close> the driver uses: it
  never raises and is shorter when \<open>xs\<close> is. The index \<^verbatim>\<open>xs[i]\<close> for a literal
  \<open>i \<ge> 0\<close> raises IndexError out of range; on a \<^verbatim>\<open>bytes\<close> object it yields an int.
\<close>

definition py_slice :: "nat \<Rightarrow> nat \<Rightarrow> 'a list \<Rightarrow> 'a list" where
  "py_slice i j xs = take (j - i) (drop i xs)"

definition py_index :: "bytes \<Rightarrow> nat \<Rightarrow> py_error + int" where
  "py_index xs i = (if i < length xs then Inr (uint (xs ! i)) else Inl IndexError)"

section \<open>The serial transport\<close>

text \<open>
  The transport is the \<^verbatim>\<open>serial.Serial\<close> object of the pyserial package, which is not
  part of the repository. Its model keeps what the driver can observe:
  \<^item> \<open>is_open\<close>: the attribute the driver tests;
  \<^item> \<open>open_results\<close>: the environment's answer to each successive attempt to open the
    port (\<open>True\<close>: the operating system opens it); an exhausted list fails. Every
    attempt uses up its answer, whether it succeeds or fails;
  \<^item> \<open>open_calls\<close>: the number of calls of \<^verbatim>\<open>open\<close> so far, the one inside the
    constructor included;
  \<^item> \<open>tx_log\<close>: the argument of every \<^verbatim>\<open>write\<close> call, in order;
  \<^item> \<open>read_log\<close>: the size asked for by every \<^verbatim>\<open>read\<close> call, in order;
  \<^item> \<open>rx_buffer\<close>: received bytes not yet read;
  \<^item> \<open>rx_stream\<close>: the bytes that arrive before the timeout of each successive
    \<^verbatim>\<open>read\<close> call (the empty list: nothing arrives).
  \<^verbatim>\<open>read(n)\<close> returns at most \<open>n\<close> of the bytes at hand and leaves the rest buffered.
  \<^verbatim>\<open>write\<close> and \<^verbatim>\<open>read\<close> on a port that is not open raise pyserial's
  PortNotOpenError, a subclass of SerialException. \<^verbatim>\<open>serial.Serial(port=p, ...)\<close> with
  a port name opens the port at once and raises SerialException when that fails.
  \<^verbatim>\<open>open\<close> and the constructor return the state of the line next to their outcome, so
  that a failed attempt is visible to the next one.
\<close>

record serial =
  is_open :: bool
  open_results :: "bool list"
  open_calls :: nat
  tx_log :: "bytes list"
  read_log :: "nat list"
  rx_buffer :: bytes
  rx_stream :: "bytes list"

definition ser_open :: "serial \<Rightarrow> (py_error + unit) \<times> serial" where
  "ser_open s =
     (let s' = s\<lparr>open_calls := open_calls s + 1\<rparr>
      in if is_open s then (Inl SerialException, s')
         else case open_results s of
                [] \<Rightarrow> (Inl SerialException, s')
              | ok # rest \<Rightarrow>
                  if ok then (Inr (), s'\<lparr>is_open := True, open_results := rest\<rparr>)
                  else (Inl SerialException, s'\<lparr>open_results := rest\<rparr>))"

definition serial_Serial ::
  "string \<Rightarrow> int \<Rightarrow> nat \<Rightarrow> serial \<Rightarrow> (py_error + serial) \<times> serial" where
  "serial_Serial port baudrate timeout line =
     (case ser_open (line\<lparr>is_open := False\<rparr>) of
        (Inl e, line') \<Rightarrow> (Inl e, line')
      | (Inr _, s) \<Rightarrow> (Inr s, s))"

definition ser_close :: "serial \<Rightarrow> serial" where
  "ser_close s = s\<lparr>is_open := False\<rparr>"

definition pending :: "serial \<Rightarrow> bytes" where
  "pending s = rx_buffer s @ (case rx_stream s of [] \<Rightarrow> [] | chunk # _ \<Rightarrow> chunk)"

definition ser_write :: "bytes \<Rightarrow> serial \<Rightarrow> (py_error + unit) \<times> serial" where
  "ser_write bs s =
     (if is_open s then (Inr (), s\<lparr>tx_log := tx_log s @ [bs]\<rparr>)
      else (Inl SerialException, s))"

definition ser_read :: "nat \<Rightarrow> serial \<Rightarrow> (py_error + bytes) \<times> serial" where
  "ser_read n s =
     (if is_open s
      then (Inr (take n (pending s)),
            s\<lparr>read_log := read_log s @ [n],
              rx_buffer := drop n (pending s),
              rx_stream := tl (rx_stream s)\<rparr>)
      else (Inl SerialException, s))"

section \<open>The driver object\<close>

text \<open>
  The attributes \<^verbatim>\<open>__init__\<close> sets. The timeout is a number of milliseconds here (a float
  of seconds in the source); its effect on a read is the \<open>rx_stream\<close> of the transport.
\<close>

record driver =
  port :: string
  address :: int
  baudrate :: int
  timeout :: nat
  position :: int
  acceleration :: int
  speed :: int
  ser :: serial

definition READ_ENCODER_VALUE :: int where "READ_ENCODER_VALUE = 0x30"
definition READ_NUMBER_OF_PULSES_RECEIVED :: int where "READ_NUMBER_OF_PULSES_RECEIVED = 0x33"
definition READ_MOTOR_SHAFT_ANGLE :: int where "READ_MOTOR_SHAFT_ANGLE = 0x36"
definition READ_MOTOR_SHAFT_ERROR_ANGLE :: int where "READ_MOTOR_SHAFT_ERROR_ANGLE = 0x39"
definition READ_EN_PIN_STATUS :: int where "READ_EN_PIN_STATUS = 0x3A"
definition READ_MOTOR_SHAFT_STATUS :: int where "READ_MOTOR_SHAFT_STATUS = 0x3E"
definition WRITE_SET_SUBDIVISON :: int where "WRITE_SET_SUBDIVISON = 0x84"
definition WRITE_SET_ACTIVE_EN_PIN :: int where "WRITE_SET_ACTIVE_EN_PIN = 0x85"
definition WRITE_SET_EN_PIN_STATUS :: int where "WRITE_SET_EN_PIN_STATUS = 0xF3"
definition WRITE_RUN_CONSTANT_SPEED :: int where "WRITE_RUN_CONSTANT_SPEED = 0xF6"
definition WRITE_STOP_MOTOR :: int where "WRITE_STOP_MOTOR = 0xF7"
definition WRITE_RUN_MOTOR_TO_POSITION :: int where "WRITE_RUN_MOTOR_TO_POSITION = 0xFD"
definition WRITE_SAVE_CLEAR_F6_STATUS :: int where "WRITE_SAVE_CLEAR_F6_STATUS = 0xFF"

subsection \<open>Statements in sequence\<close>

text \<open>
  A method body is a sequence of statements on the object; each either raises, which
  ends the method with the object as it is at that point, or yields a value and the
  next statement runs.
\<close>

type_synonym 'a action = "driver \<Rightarrow> (py_error + 'a) \<times> driver"

definition py_return :: "'a \<Rightarrow> 'a action" where
  "py_return v self = (Inr v, self)"

definition py_raise :: "py_error \<Rightarrow> 'a action" where
  "py_raise e self = (Inl e, self)"

definition py_eval :: "py_error + 'a \<Rightarrow> 'a action" where
  "py_eval r self = (r, self)"

definition py_then :: "'a action \<Rightarrow> ('a \<Rightarrow> 'b action) \<Rightarrow> 'b action" where
  "py_then m f self =
     (case m self of
        (Inl e, self') \<Rightarrow> (Inl e, self')
      | (Inr v, self') \<Rightarrow> f v self')"

definition self_ser_write :: "bytes \<Rightarrow> unit action" where
  "self_ser_write bs self = (case ser_write bs (ser self) of (r, s) \<Rightarrow> (r, self\<lparr>ser := s\<rparr>))"

definition self_ser_read :: "nat \<Rightarrow> bytes action" where
  "self_ser_read n self = (case ser_read n (ser self) of (r, s) \<Rightarrow> (r, self\<lparr>ser := s\<rparr>))"

subsection \<open>Construction and teardown\<close>

text \<open>
  \<^verbatim>\<open>connect\<close> opens the port only when it is not open, and catches SerialException
  (it prints the error and goes on). \<^verbatim>\<open>__init__\<close> builds the transport, which raises
  by itself when the port cannot be opened, then calls \<^verbatim>\<open>connect\<close>. The argument
  \<open>line\<close> is the state of the serial line the port name stands for, and the result
  of \<open>init\<close> is the outcome together with the state of that line afterwards. What the
  methods print is not part of the model.
\<close>

definition connect :: "unit action" where
  "connect self =
     (if \<not> is_open (ser self)
      then (case ser_open (ser self) of
              (Inr _, s) \<Rightarrow> (Inr (), self\<lparr>ser := s\<rparr>)
            | (Inl SerialException, s) \<Rightarrow> (Inr (), self\<lparr>ser := s\<rparr>)
            | (Inl e, s) \<Rightarrow> (Inl e, self\<lparr>ser := s\<rparr>))
      else (Inr (), self))"

definition init ::
  "string \<Rightarrow> int \<Rightarrow> nat \<Rightarrow> int \<Rightarrow> serial \<Rightarrow> (py_error + driver) \<times> serial" where
  "init port' baudrate' timeout' address' line =
     (case serial_Serial port' baudrate' timeout' line of
        (Inl e, line') \<Rightarrow> (Inl e, line')
      | (Inr s, _) \<Rightarrow>
          (case connect \<lparr>port = port', address = address', baudrate = baudrate',
                         timeout = timeout', position = -1, acceleration = 0, speed = 0,
                         ser = s\<rparr> of
             (Inl e, self) \<Rightarrow> (Inl e, ser self)
           | (Inr _, self) \<Rightarrow> (Inr self, ser self)))"

definition disconnect :: "unit action" where
  "disconnect self =
     (if is_open (ser self) then (Inr (), self\<lparr>ser := ser_close (ser self)\<rparr>)
      else (Inr (), self))"

subsection \<open>The checksum helper\<close>

text \<open>\<^verbatim>\<open>calculate_checksum(data)\<close>: \<open>data\<close> is a list of bytes objects.\<close>

definition calculate_checksum :: "bytes list \<Rightarrow> int" where
  "calculate_checksum data = (let packed = concat data in sum_list (map uint packed) AND 0xFF)"

subsection \<open>Read operations\<close>

definition read_motor_shaft_status :: "int action" where
  "read_motor_shaft_status self =
     py_then (py_eval (to_bytes (address self) 1)) (\<lambda>b0.
     py_then (py_eval (to_bytes READ_MOTOR_SHAFT_STATUS 1)) (\<lambda>b1.
     py_then (self_ser_write (concat [b0, b1])) (\<lambda>_.
     py_then (self_ser_read 2) (\<lambda>response.
     py_eval (py_index response 1))))) self"

definition read_motor_shaft_angle :: "int action" where
  "read_motor_shaft_angle self =
     py_then (py_eval (to_bytes (address self) 1)) (\<lambda>b0.
     py_then (py_eval (to_bytes READ_MOTOR_SHAFT_ANGLE 1)) (\<lambda>b1.
     py_then (self_ser_write (concat [b0, b1])) (\<lambda>_.
     py_then (self_ser_read 5) (\<lambda>response.
     py_return (from_bytes (py_slice 1 5 response) False))))) self"

definition read_motor_shaft_error_angle :: "int action" where
  "read_motor_shaft_error_angle self =
     py_then (py_eval (to_bytes (address self) 1)) (\<lambda>b0.
     py_then (py_eval (to_bytes READ_MOTOR_SHAFT_ERROR_ANGLE 1)) (\<lambda>b1.
     py_then (self_ser_write (concat [b0, b1])) (\<lambda>_.
     py_then (self_ser_read 3) (\<lambda>response.
     py_return (from_bytes (py_slice 1 3 response) True))))) self"

definition read_pulses_received :: "int action" where
  "read_pulses_received self =
     py_then (py_eval (to_bytes (address self) 1)) (\<lambda>b0.
     py_then (py_eval (to_bytes READ_NUMBER_OF_PULSES_RECEIVED 1)) (\<lambda>b1.
     py_then (self_ser_write (concat [b0, b1])) (\<lambda>_.
     py_then (self_ser_read 5) (\<lambda>response.
     let response = py_slice 1 5 response;
         retVal = from_bytes response True
     in py_return retVal)))) self"

text \<open>\<^verbatim>\<open>get_encoder_value\<close> reads three bytes and returns nothing (None).\<close>

definition get_encoder_value :: "unit action" where
  "get_encoder_value self =
     py_then (py_eval (to_bytes (address self) 1)) (\<lambda>b0.
     py_then (py_eval (to_bytes READ_ENCODER_VALUE 1)) (\<lambda>b1.
     py_then (self_ser_write (concat [b0, b1])) (\<lambda>_.
     py_then (self_ser_read 3) (\<lambda>response.
     py_return ())))) self"

subsection \<open>Write and motion operations\<close>

text \<open>
  The elements of the list \<^verbatim>\<open>commandpacket\<close> are evaluated left to right, so the
  first conversion that fails decides the exception. \<^verbatim>\<open>flush\<close> and \<^verbatim>\<open>time.sleep\<close>
  (in \<^verbatim>\<open>stop\<close> and \<^verbatim>\<open>set_en_pin_status\<close>) change nothing the model keeps, and the
  string \<^verbatim>\<open>hex_response\<close> is built and dropped.
\<close>

definition set_subdivision :: "int \<Rightarrow> unit action" where
  "set_subdivision subdivision self =
     py_then (py_eval (to_bytes (address self) 1)) (\<lambda>b0.
     py_then (py_eval (to_bytes WRITE_SET_SUBDIVISON 1)) (\<lambda>b1.
     py_then (py_eval (to_bytes subdivision 1)) (\<lambda>b2.
     py_then (self_ser_write (concat [b0, b1, b2])) (\<lambda>_.
     py_then (self_ser_read 2) (\<lambda>response.
     py_return ()))))) self"

definition move_to :: "string \<Rightarrow> int \<Rightarrow> int \<Rightarrow> unit action" where
  "move_to dir speed' position' self =
     py_then (if dir = ''CCW'' then py_return speed'
              else if dir = ''CW'' then py_return (speed' OR 0x80)
              else py_raise ValueError) (\<lambda>speed'.
     py_then (py_eval (to_bytes speed' 1)) (\<lambda>speed'.
     py_then (py_eval (to_bytes (address self) 1)) (\<lambda>b0.
     py_then (py_eval (to_bytes WRITE_RUN_MOTOR_TO_POSITION 1)) (\<lambda>b1.
     py_then (py_eval (to_bytes position' 2)) (\<lambda>b3.
     py_then (self_ser_write (concat [b0, b1, speed', b3])) (\<lambda>_.
     py_then (self_ser_read 2) (\<lambda>response.
     py_return ()))))))) self"

definition move :: "string \<Rightarrow> int \<Rightarrow> unit action" where
  "move direction speed' self =
     py_then (if direction = ''CCW'' then py_return speed'
              else if direction = ''CW'' then py_return (speed' OR 0x80)
              else py_raise ValueError) (\<lambda>speed'.
     py_then (py_eval (to_bytes (address self) 1)) (\<lambda>b0.
     py_then (py_eval (to_bytes WRITE_RUN_CONSTANT_SPEED 1)) (\<lambda>b1.
     py_then (py_eval (to_bytes speed' 1)) (\<lambda>b2.
     py_then (self_ser_write (concat [b0, b1, b2])) (\<lambda>_.
     py_then (self_ser_read 2) (\<lambda>response.
     py_return ())))))) self"

definition stop :: "unit action" where
  "stop self =
     py_then (py_eval (to_bytes (address self) 1)) (\<lambda>b0.
     py_then (py_eval (to_bytes WRITE_STOP_MOTOR 1)) (\<lambda>b1.
     py_then (self_ser_write (concat [b0, b1])) (\<lambda>_.
     py_then (self_ser_read 2) (\<lambda>response.
     py_return ())))) self"

definition set_en_pin_status :: "int \<Rightarrow> unit action" where
  "set_en_pin_status status self =
     py_then (py_eval (to_bytes (address self) 1)) (\<lambda>b0.
     py_then (py_eval (to_bytes WRITE_SET_EN_PIN_STATUS 1)) (\<lambda>b1.
     py_then (py_eval (to_bytes status 1)) (\<lambda>b2.
     py_then (self_ser_write (concat [b0, b1, b2])) (\<lambda>_.
     py_then (self_ser_read 3) (\<lambda>response.
     py_return ()))))) self"

definition set_active_of_en_pin :: "int \<Rightarrow> unit action" where
  "set_active_of_en_pin active self =
     py_then (py_eval (to_bytes (address self) 1)) (\<lambda>b0.
     py_then (py_eval (to_bytes WRITE_SET_ACTIVE_EN_PIN 1)) (\<lambda>b1.
     py_then (py_eval (to_bytes active 1)) (\<lambda>b2.
     let commandpacket = [b0, b1, b2];
         checksum = calculate_checksum commandpacket
     in
     py_then (py_eval (to_bytes checksum 1)) (\<lambda>b3.
     py_then (self_ser_write (concat (commandpacket @ [b3]))) (\<lambda>_.
     py_then (self_ser_read 3) (\<lambda>response.
     py_return ())))))) self"

subsection \<open>The link of the example scripts\<close>

text \<open>
  The example scripts build the driver on port \<^verbatim>\<open>/dev/ttyACM0\<close> at 115200 baud with a
  timeout of one second and address 0xE0. \<open>example_line replies\<close> is a serial line that
  opens at the first attempt and delivers \<open>replies\<close> to the successive reads.
\<close>

definition example_line :: "bytes list \<Rightarrow> serial" where
  "example_line replies =
     \<lparr>is_open = False, open_results = [True], open_calls = 0, tx_log = [], read_log = [],
      rx_buffer = [], rx_stream = replies\<rparr>"

definition example_link :: "bytes list \<Rightarrow> driver" where
  "example_link replies =
     \<lparr>port = ''/dev/ttyACM0'', address = 0xE0, baudrate = 115200, timeout = 1000,
      position = -1, acceleration = 0, speed = 0,
      ser = (example_line replies)\<lparr>is_open := True, open_results := [], open_calls := 1\<rparr>\<rparr>"

section \<open>Vocabulary of the properties\<close>

text \<open>
  A link the operations are meant for: the port is open and the address is one byte.
  \<open>transmits m self frames\<close>: running \<open>m\<close> on \<open>self\<close> makes exactly the \<^verbatim>\<open>write\<close>
  calls \<open>frames\<close>, in that order. \<open>requests m self sizes\<close>: it makes exactly the
  \<^verbatim>\<open>read\<close> calls of these sizes. \<open>received n self\<close>: the reply a \<^verbatim>\<open>read(n)\<close> gets on
  \<open>self\<close>. \<open>after_exchange frame n s\<close>: the transport after one write of \<open>frame\<close> and
  one \<^verbatim>\<open>read(n)\<close>. \<open>cannot_open line\<close>: the next attempt to open the port fails.
  \<open>after_failed_open s\<close>: the transport after exactly one failed call of \<^verbatim>\<open>open\<close> on
  a closed port: one more call counted, one answer used up, still closed.
\<close>

definition valid_link :: "driver \<Rightarrow> bool" where
  "valid_link self \<longleftrightarrow> is_open (ser self) \<and> 0 \<le> address self \<and> address self < 256"

definition transmits :: "'a action \<Rightarrow> driver \<Rightarrow> bytes list \<Rightarrow> bool" where
  "transmits m self frames \<longleftrightarrow> tx_log (ser (snd (m self))) = tx_log (ser self) @ frames"


definition received :: "nat \<Rightarrow> driver \<Rightarrow> bytes" where
  "received n self = take n (pending (ser self))"

definition after_exchange :: "bytes \<Rightarrow> nat \<Rightarrow> serial \<Rightarrow> serial" where
  "after_exchange frame n s =
     s\<lparr>tx_log := tx_log s @ [frame], read_log := read_log s @ [n],
       rx_buffer := drop n (pending s), rx_stream := tl (rx_stream s)\<rparr>"

definition cannot_open :: "serial \<Rightarrow> bool" where
  "cannot_open line = (case open_results line of [] \<Rightarrow> True | ok # _ \<Rightarrow> \<not> ok)"

definition after_failed_open :: "serial \<Rightarrow> serial" where
  "after_failed_open s =
     s\<lparr>is_open := False, open_calls := open_calls s + 1, open_results := tl (open_results s)\<rparr>"

section \<open>Conversions\<close>

lemmas opcode_defs =
  READ_ENCODER_VALUE_def READ_NUMBER_OF_PULSES_RECEIVED_def READ_MOTOR_SHAFT_ANGLE_def
  READ_MOTOR_SHAFT_ERROR_ANGLE_def READ_EN_PIN_STATUS_def READ_MOTOR_SHAFT_STATUS_def
  WRITE_SET_SUBDIVISON_def WRITE_SET_ACTIVE_EN_PIN_def WRITE_SET_EN_PIN_STATUS_def
  WRITE_RUN_CONSTANT_SPEED_def WRITE_STOP_MOTOR_def WRITE_RUN_MOTOR_TO_POSITION_def
  WRITE_SAVE_CLEAR_F6_STATUS_def

lemma to_bytes_1: "0 \<le> x \<Longrightarrow> x < 256 \<Longrightarrow> to_bytes x (Suc 0) = Inr [word_of_int x]"
  by (simp add: to_bytes_def)

lemma to_bytes_2:
  "0 \<le> x \<Longrightarrow> x < 65536 \<Longrightarrow> to_bytes x 2 = Inr [word_of_int (x div 256), word_of_int x]"
  by (simp add: to_bytes_def numeral_2_eq_2)

lemma to_bytes_overflow: "x < 0 \<or> 256 ^ n \<le> x \<Longrightarrow> to_bytes x n = Inl OverflowError"
  by (simp add: to_bytes_def)

lemma direction_bit_range:
  fixes sp :: int
  assumes "0 \<le> sp" and "sp \<le> 0x7F"
  shows "0 \<le> sp OR 0x80" and "sp OR 0x80 < 256"
proof -
  show "0 \<le> sp OR 0x80" using assms by simp
  have "sp OR 0x80 < 2 ^ 8"
    using assms by (intro OR_upper) simp_all
  then show "sp OR 0x80 < 256" by simp
qed

lemma byte_value: "0 \<le> x \<Longrightarrow> x < 256 \<Longrightarrow> uint (word_of_int x :: byte) = x"
  by (simp add: uint_word_of_int)

lemma from_bytes_empty: "from_bytes [] b = 0"
  by (simp add: from_bytes_def)

lemma py_slice_short: "length xs \<le> Suc 0 \<Longrightarrow> py_slice (Suc 0) j xs = []"
  by (simp add: py_slice_def)

section \<open>Running a method body\<close>

lemma py_then_eval_Inr: "py_then (py_eval (Inr v)) f self = f v self"
  by (simp add: py_then_def py_eval_def)

lemma py_then_eval_Inl: "py_then (py_eval (Inl e)) f self = (Inl e, self)"
  by (simp add: py_then_def py_eval_def)

lemma py_then_return: "py_then (py_return v) f self = f v self"
  by (simp add: py_then_def py_return_def)

lemma py_then_raise: "py_then (py_raise e) f self = (Inl e, self)"
  by (simp add: py_then_def py_raise_def)

lemmas py_steps = py_then_eval_Inr py_then_eval_Inl py_then_return py_then_raise

lemma exchange:
  "is_open (ser self) \<Longrightarrow>
   py_then (self_ser_write frame) (\<lambda>_. py_then (self_ser_read n) k) self =
   k (received n self) (self\<lparr>ser := after_exchange frame n (ser self)\<rparr>)"
  by (simp add: py_then_def self_ser_write_def self_ser_read_def ser_write_def ser_read_def
      after_exchange_def pending_def received_def)

lemma transmits_exchange:
  "m self = (r, self\<lparr>ser := after_exchange frame n (ser self)\<rparr>) \<Longrightarrow> transmits m self [frame]"
  by (simp add: transmits_def after_exchange_def)


lemma transmits_nothing: "m self = (r, self) \<Longrightarrow> transmits m self []"
  by (simp add: transmits_def)

subsection \<open>Each operation on a valid link\<close>

lemma read_motor_shaft_status_run:
  assumes "valid_link self"
  shows "read_motor_shaft_status self =
           (py_index (received 2 self) 1,
            self\<lparr>ser := after_exchange [word_of_int (address self), 0x3E] 2 (ser self)\<rparr>)"
  using assms
  by (simp add: read_motor_shaft_status_def valid_link_def to_bytes_1 opcode_defs py_steps
      exchange py_eval_def)

lemma read_motor_shaft_angle_run:
  assumes "valid_link self"
  shows "read_motor_shaft_angle self =
           (Inr (from_bytes (py_slice 1 5 (received 5 self)) False),
            self\<lparr>ser := after_exchange [word_of_int (address self), 0x36] 5 (ser self)\<rparr>)"
  using assms
  by (simp add: read_motor_shaft_angle_def valid_link_def to_bytes_1 opcode_defs py_steps
      exchange py_return_def)

lemma read_motor_shaft_error_angle_run:
  assumes "valid_link self"
  shows "read_motor_shaft_error_angle self =
           (Inr (from_bytes (py_slice 1 3 (received 3 self)) True),
            self\<lparr>ser := after_exchange [word_of_int (address self), 0x39] 3 (ser self)\<rparr>)"
  using assms
  by (simp add: read_motor_shaft_error_angle_def valid_link_def to_bytes_1 opcode_defs py_steps
      exchange py_return_def)

lemma read_pulses_received_run:
  assumes "valid_link self"
  shows "read_pulses_received self =
           (Inr (from_bytes (py_slice 1 5 (received 5 self)) True),
            self\<lparr>ser := after_exchange [word_of_int (address self), 0x33] 5 (ser self)\<rparr>)"
  using assms
  by (simp add: read_pulses_received_def valid_link_def to_bytes_1 opcode_defs py_steps
      exchange py_return_def)

lemma get_encoder_value_run:
  assumes "valid_link self"
  shows "get_encoder_value self =
           (Inr (), self\<lparr>ser := after_exchange [word_of_int (address self), 0x30] 3 (ser self)\<rparr>)"
  using assms
  by (simp add: get_encoder_value_def valid_link_def to_bytes_1 opcode_defs py_steps
      exchange py_return_def)

lemma set_subdivision_run:
  assumes "valid_link self" and "0 \<le> v" and "v < 256"
  shows "set_subdivision v self =
           (Inr (), self\<lparr>ser := after_exchange
                      [word_of_int (address self), 0x84, word_of_int v] 2 (ser self)\<rparr>)"
  using assms
  by (simp add: set_subdivision_def valid_link_def to_bytes_1 opcode_defs py_steps
      exchange py_return_def)

lemma set_en_pin_status_run:
  assumes "valid_link self" and "0 \<le> v" and "v < 256"
  shows "set_en_pin_status v self =
           (Inr (), self\<lparr>ser := after_exchange
                      [word_of_int (address self), 0xF3, word_of_int v] 3 (ser self)\<rparr>)"
  using assms
  by (simp add: set_en_pin_status_def valid_link_def to_bytes_1 opcode_defs py_steps
      exchange py_return_def)

lemma stop_run:
  assumes "valid_link self"
  shows "stop self =
           (Inr (), self\<lparr>ser := after_exchange [word_of_int (address self), 0xF7] 2 (ser self)\<rparr>)"
  using assms
  by (simp add: stop_def valid_link_def to_bytes_1 opcode_defs py_steps exchange py_return_def)

lemma move_run:
  assumes "valid_link self" and "direction = ''CW'' \<or> direction = ''CCW''"
    and "0 \<le> (if direction = ''CW'' then sp OR 0x80 else sp)"
    and "(if direction = ''CW'' then sp OR 0x80 else sp) < 256"
  shows "move direction sp self =
           (Inr (), self\<lparr>ser := after_exchange
                      [word_of_int (address self), 0xF6,
                       word_of_int (if direction = ''CW'' then sp OR 0x80 else sp)] 2
                      (ser self)\<rparr>)"
  using assms
  by (auto simp add: move_def valid_link_def to_bytes_1 opcode_defs py_steps
      exchange py_return_def)

lemma move_to_run:
  assumes "valid_link self" and "dir = ''CW'' \<or> dir = ''CCW''"
    and "0 \<le> (if dir = ''CW'' then sp OR 0x80 else sp)"
    and "(if dir = ''CW'' then sp OR 0x80 else sp) < 256"
    and "0 \<le> pos" and "pos < 65536"
  shows "move_to dir sp pos self =
           (Inr (), self\<lparr>ser := after_exchange
                      [word_of_int (address self), 0xFD,
                       word_of_int (if dir = ''CW'' then sp OR 0x80 else sp),
                       word_of_int (pos div 256), word_of_int pos] 2
                      (ser self)\<rparr>)"
  using assms
  by (auto simp add: move_to_def valid_link_def to_bytes_1 to_bytes_2 opcode_defs py_steps
      exchange py_return_def)

lemma move_bad_direction:
  "direction \<noteq> ''CW'' \<Longrightarrow> direction \<noteq> ''CCW'' \<Longrightarrow> move direction sp self = (Inl ValueError, self)"
  by (simp add: move_def py_steps)

lemma move_to_bad_direction:
  "dir \<noteq> ''CW'' \<Longrightarrow> dir \<noteq> ''CCW'' \<Longrightarrow> move_to dir sp pos self = (Inl ValueError, self)"
  by (simp add: move_to_def py_steps)

subsection \<open>The checksum\<close>

lemma calculate_checksum_mod:
  "calculate_checksum data = sum_list (map uint (concat data)) mod 256"
proof -
  have m: "(0xFF :: int) = mask 8" by (simp add: mask_eq_exp_minus_1)
  have "k AND 0xFF = k mod 256" for k :: int
    unfolding m by (simp add: take_bit_eq_mod flip: take_bit_eq_mask)
  then show ?thesis by (simp add: calculate_checksum_def)
qed

lemma calculate_checksum_range:
  "0 \<le> calculate_checksum data" "calculate_checksum data < 256"
  by (simp_all add: calculate_checksum_mod)

lemma checksum_three:
  assumes "0 \<le> a" "a < 256" "0 \<le> v" "v < 256"
  shows "calculate_checksum [[word_of_int a], [0x85], [word_of_int v]] = (a + 0x85 + v) mod 256"
  using assms by (simp add: calculate_checksum_mod byte_value add.assoc)

lemma set_active_of_en_pin_run:
  assumes "valid_link self" and "0 \<le> v" and "v < 256"
  shows "set_active_of_en_pin v self =
           (Inr (), self\<lparr>ser := after_exchange
                      [word_of_int (address self), 0x85, word_of_int v,
                       word_of_int (calculate_checksum
                          [[word_of_int (address self)], [0x85], [word_of_int v]])] 3
                      (ser self)\<rparr>)"
  using assms
  by (simp add: set_active_of_en_pin_def valid_link_def to_bytes_1 opcode_defs py_steps
      exchange py_return_def calculate_checksum_range Let_def)

subsection \<open>Payloads that do not fit\<close>

lemma to_bytes_1_cases:
  "to_bytes x (Suc 0) = Inl OverflowError \<or> to_bytes x (Suc 0) = Inr [word_of_int x]"
  by (simp add: to_bytes_def)

lemma set_subdivision_overflow:
  assumes "v < 0 \<or> 255 < v"
  shows "set_subdivision v self = (Inl OverflowError, self)"
  using assms to_bytes_1_cases [of "address self"]
  by (auto simp add: set_subdivision_def py_steps opcode_defs to_bytes_1 to_bytes_overflow)

lemma set_en_pin_status_overflow:
  assumes "v < 0 \<or> 255 < v"
  shows "set_en_pin_status v self = (Inl OverflowError, self)"
  using assms to_bytes_1_cases [of "address self"]
  by (auto simp add: set_en_pin_status_def py_steps opcode_defs to_bytes_1 to_bytes_overflow)

lemma set_active_of_en_pin_overflow:
  assumes "v < 0 \<or> 255 < v"
  shows "set_active_of_en_pin v self = (Inl OverflowError, self)"
  using assms to_bytes_1_cases [of "address self"]
  by (auto simp add: set_active_of_en_pin_def py_steps opcode_defs to_bytes_1 to_bytes_overflow)

lemma move_overflow:
  assumes "direction = ''CW'' \<or> direction = ''CCW''"
    and "(if direction = ''CW'' then sp OR 0x80 else sp) < 0 \<or>
         255 < (if direction = ''CW'' then sp OR 0x80 else sp)"
  shows "move direction sp self = (Inl OverflowError, self)"
  using assms to_bytes_1_cases [of "address self"]
  by (auto simp add: move_def py_steps opcode_defs to_bytes_1 to_bytes_overflow)

lemma move_to_overflow:
  assumes "dir = ''CW'' \<or> dir = ''CCW''"
    and "(if dir = ''CW'' then sp OR 0x80 else sp) < 0 \<or>
         255 < (if dir = ''CW'' then sp OR 0x80 else sp) \<or> pos < 0 \<or> 65535 < pos"
  shows "move_to dir sp pos self = (Inl OverflowError, self)"
proof -
  have enc: "to_bytes (if dir = ''CW'' then sp OR 0x80 else sp) (Suc 0) = Inl OverflowError \<or>
     to_bytes (if dir = ''CW'' then sp OR 0x80 else sp) (Suc 0)
       = Inr [word_of_int (if dir = ''CW'' then sp OR 0x80 else sp)]"
    by (rule to_bytes_1_cases)
  have p: "to_bytes pos 2 = Inl OverflowError"
    if "0 \<le> (if dir = ''CW'' then sp OR 0x80 else sp)"
       "(if dir = ''CW'' then sp OR 0x80 else sp) < 256"
    using that assms(2) by (intro to_bytes_overflow) auto
  show ?thesis
    using assms(1) enc p to_bytes_1_cases [of "address self"]
    by (auto simp add: move_to_def py_steps opcode_defs to_bytes_1 to_bytes_def)
qed

subsection \<open>Opening the port\<close>

lemma ser_open_fails:
  "\<not> is_open s \<Longrightarrow> cannot_open s \<Longrightarrow> ser_open s = (Inl SerialException, after_failed_open s)"
  by (cases "open_results s")
    (simp_all add: ser_open_def cannot_open_def after_failed_open_def Let_def)

lemma serial_Serial_fails:
  "cannot_open line \<Longrightarrow>
   serial_Serial p b t line = (Inl SerialException, after_failed_open line)"
proof -
  assume c: "cannot_open line"
  then have "cannot_open (line\<lparr>is_open := False\<rparr>)" by (simp add: cannot_open_def)
  then have "ser_open (line\<lparr>is_open := False\<rparr>) =
      (Inl SerialException, after_failed_open (line\<lparr>is_open := False\<rparr>))"
    by (intro ser_open_fails) simp_all
  then show ?thesis by (simp add: serial_Serial_def after_failed_open_def)
qed

lemma init_example:
  "init ''/dev/ttyACM0'' 115200 1000 0xE0 (example_line replies) =
     (Inr (example_link replies), ser (example_link replies))"
  by (simp add: init_def serial_Serial_def ser_open_def connect_def example_line_def
      example_link_def Let_def)

lemma connect_again_opens:
  "is_open (ser (snd (connect (snd (connect
      ((example_link [])\<lparr>ser := example_line []\<lparr>open_results := [False, True]\<rparr>\<rparr>))))))"
  by (simp add: connect_def ser_open_def example_line_def example_link_def Let_def)

lemma example_link_valid: "valid_link (example_link replies)"
  by (simp add: valid_link_def example_link_def)

section \<open>Properties of the driver\<close>

text \<open>
  C1. For a speed in 0..0x7F, the speed byte that \<^verbatim>\<open>move\<close> and \<^verbatim>\<open>move_to\<close> put in the
  frame they transmit has the value \<open>speed | 0x80\<close> for the direction \<^verbatim>\<open>"CW"\<close> and the
  value \<open>speed\<close> for \<^verbatim>\<open>"CCW"\<close> (on a valid link, and for \<^verbatim>\<open>move_to\<close> with a position
  that fits two bytes). For every other direction token both operations raise ValueError
  (the InvalidArgument of the specification) and leave the object as it was: nothing is
  written to the transport.
\<close>

theorem direction_bit_in_speed_byte:
  assumes "valid_link self" and "0 \<le> sp" and "sp \<le> 0x7F" and "0 \<le> pos" and "pos < 65536"
  shows "transmits (move ''CW'' sp) self
           [[word_of_int (address self), 0xF6, word_of_int (sp OR 0x80)]] \<and>
         transmits (move ''CCW'' sp) self
           [[word_of_int (address self), 0xF6, word_of_int sp]] \<and>
         transmits (move_to ''CW'' sp pos) self
           [[word_of_int (address self), 0xFD, word_of_int (sp OR 0x80),
             word_of_int (pos div 256), word_of_int pos]] \<and>
         transmits (move_to ''CCW'' sp pos) self
           [[word_of_int (address self), 0xFD, word_of_int sp,
             word_of_int (pos div 256), word_of_int pos]] \<and>
         uint (word_of_int (sp OR 0x80) :: byte) = sp OR 0x80 \<and>
         uint (word_of_int sp :: byte) = sp \<and>
         (tok \<noteq> ''CW'' \<and> tok \<noteq> ''CCW'' \<longrightarrow>
            move tok sp' self' = (Inl ValueError, self') \<and>
            transmits (move tok sp') self' [] \<and>
            move_to tok sp' pos' self' = (Inl ValueError, self') \<and>
            transmits (move_to tok sp' pos') self' [])"
proof -
  note r = direction_bit_range [OF assms(2,3)]
  have cw: "transmits (move ''CW'' sp) self
      [[word_of_int (address self), 0xF6, word_of_int (sp OR 0x80)]]"
    using move_run [of self "''CW''" sp] assms(1) r
    by (intro transmits_exchange [where r = "Inr ()" and n = 2]) simp
  have ccw: "transmits (move ''CCW'' sp) self
      [[word_of_int (address self), 0xF6, word_of_int sp]]"
    using move_run [of self "''CCW''" sp] assms(1,2,3)
    by (intro transmits_exchange [where r = "Inr ()" and n = 2]) simp
  have tcw: "transmits (move_to ''CW'' sp pos) self
      [[word_of_int (address self), 0xFD, word_of_int (sp OR 0x80),
        word_of_int (pos div 256), word_of_int pos]]"
    using move_to_run [of self "''CW''" sp pos] assms(1,4,5) r
    by (intro transmits_exchange [where r = "Inr ()" and n = 2]) simp
  have tccw: "transmits (move_to ''CCW'' sp pos) self
      [[word_of_int (address self), 0xFD, word_of_int sp,
        word_of_int (pos div 256), word_of_int pos]]"
    using move_to_run [of self "''CCW''" sp pos] assms
    by (intro transmits_exchange [where r = "Inr ()" and n = 2]) simp
  have b1: "uint (word_of_int (sp OR 0x80) :: byte) = sp OR 0x80"
    using r by (rule byte_value)
  have b2: "uint (word_of_int sp :: byte) = sp"
    using assms(2,3) by (intro byte_value) simp_all
  have bad: "tok \<noteq> ''CW'' \<and> tok \<noteq> ''CCW'' \<longrightarrow>
            move tok sp' self' = (Inl ValueError, self') \<and>
            transmits (move tok sp') self' [] \<and>
            move_to tok sp' pos' self' = (Inl ValueError, self') \<and>
            transmits (move_to tok sp' pos') self' []"
    by (simp add: move_bad_direction move_to_bad_direction transmits_nothing)
  from cw ccw tcw tccw b1 b2 bad show ?thesis by blast
qed

theorem direction_bit_in_speed_byte_witness:
  "valid_link (example_link []) \<and> (0::int) \<le> 0x70 \<and> (0x70::int) \<le> 0x7F \<and>
   (0::int) \<le> 0x80 \<and> (0x80::int) < 65536 \<and> ''up'' \<noteq> ''CW'' \<and> ''up'' \<noteq> ''CCW'' \<and>
   tx_log (ser (snd (move ''CW'' 0x70 (example_link [])))) = [[0xE0, 0xF6, 0xF0]] \<and>
   tx_log (ser (snd (move ''CCW'' 0x70 (example_link [])))) = [[0xE0, 0xF6, 0x70]] \<and>
   tx_log (ser (snd (move_to ''CW'' 0x70 0x80 (example_link [])))) =
     [[0xE0, 0xFD, 0xF0, 0x00, 0x80]] \<and>
   tx_log (ser (snd (move_to ''CCW'' 0x70 0x80 (example_link [])))) =
     [[0xE0, 0xFD, 0x70, 0x00, 0x80]] \<and>
   move ''up'' 0x70 (example_link []) = (Inl ValueError, example_link []) \<and>
   move_to ''up'' 0x70 0x80 (example_link []) = (Inl ValueError, example_link [])"
  using direction_bit_in_speed_byte
    [of "example_link []" "0x70" "0x80" "''up''" "0x70" "example_link []" "0x80"]
  by (simp add: transmits_def valid_link_def example_link_def example_line_def)

text \<open>
  C2. On a link with device address 0xE0, \<^verbatim>\<open>move_to("CW", 0x70, 0x0080)\<close> returns
  normally and makes one write, of exactly the five bytes E0 FD F0 00 80: the address,
  the opcode 0xFD, the speed byte 0x70 | 0x80 = 0xF0 and the position 0x0080 as two
  big-endian bytes.
\<close>

theorem move_to_example_frame:
  assumes "valid_link self" and "address self = 0xE0"
  shows "fst (move_to ''CW'' 0x70 0x0080 self) = Inr () \<and>
         transmits (move_to ''CW'' 0x70 0x0080) self [[0xE0, 0xFD, 0xF0, 0x00, 0x80]]"
proof -
  have run: "move_to ''CW'' 0x70 0x0080 self =
      (Inr (), self\<lparr>ser := after_exchange [0xE0, 0xFD, 0xF0, 0x00, 0x80] 2 (ser self)\<rparr>)"
    using move_to_run [of self "''CW''" "0x70" "0x0080"] assms by simp
  from run have "fst (move_to ''CW'' 0x70 0x0080 self) = Inr ()" by simp
  moreover from run have "transmits (move_to ''CW'' 0x70 0x0080) self [[0xE0, 0xFD, 0xF0, 0x00, 0x80]]"
    by (rule transmits_exchange)
  ultimately show ?thesis by simp
qed

theorem move_to_example_frame_witness:
  "valid_link (example_link []) \<and> address (example_link []) = 0xE0 \<and>
   fst (move_to ''CW'' 0x70 0x0080 (example_link [])) = Inr () \<and>
   tx_log (ser (snd (move_to ''CW'' 0x70 0x0080 (example_link [])))) =
     [[0xE0, 0xFD, 0xF0, 0x00, 0x80]]"
  using move_to_example_frame [of "example_link []"]
  by (simp add: transmits_def valid_link_def example_link_def example_line_def)

text \<open>
  C3. The multi-byte reads decode the payload with their own signedness: on the reply
  E0 FF FF FF F0, \<^verbatim>\<open>read_pulses_received\<close> returns the signed value -16 and
  \<^verbatim>\<open>read_motor_shaft_angle\<close> the unsigned value 4294967280; on the reply E0 FF 00,
  \<^verbatim>\<open>read_motor_shaft_error_angle\<close> returns the signed 16-bit value -256.
\<close>

theorem signedness_of_replies:
  assumes "valid_link self" and "received 5 self = [0xE0, 0xFF, 0xFF, 0xFF, 0xF0]"
    and "valid_link self'" and "received 3 self' = [0xE0, 0xFF, 0x00]"
  shows "fst (read_pulses_received self) = Inr (- 16) \<and>
         fst (read_motor_shaft_angle self) = Inr 4294967280 \<and>
         fst (read_motor_shaft_error_angle self') = Inr (- 256)"
  using assms
  by (simp add: read_pulses_received_run read_motor_shaft_angle_run
      read_motor_shaft_error_angle_run py_slice_def from_bytes_def)

theorem signedness_of_replies_witness:
  "valid_link (example_link [[0xE0, 0xFF, 0xFF, 0xFF, 0xF0]]) \<and>
   received 5 (example_link [[0xE0, 0xFF, 0xFF, 0xFF, 0xF0]]) = [0xE0, 0xFF, 0xFF, 0xFF, 0xF0] \<and>
   valid_link (example_link [[0xE0, 0xFF, 0x00]]) \<and>
   received 3 (example_link [[0xE0, 0xFF, 0x00]]) = [0xE0, 0xFF, 0x00] \<and>
   fst (read_pulses_received (example_link [[0xE0, 0xFF, 0xFF, 0xFF, 0xF0]])) = Inr (- 16) \<and>
   fst (read_motor_shaft_angle (example_link [[0xE0, 0xFF, 0xFF, 0xFF, 0xF0]])) = Inr 4294967280 \<and>
   fst (read_motor_shaft_error_angle (example_link [[0xE0, 0xFF, 0x00]])) = Inr (- 256)"
  using signedness_of_replies
    [of "example_link [[0xE0, 0xFF, 0xFF, 0xFF, 0xF0]]" "example_link [[0xE0, 0xFF, 0x00]]"]
  by (simp add: valid_link_def received_def pending_def example_link_def example_line_def)

text \<open>
  C4. \<^verbatim>\<open>calculate_checksum\<close> is the sum of the frame bytes modulo 256 (the mask 0xFF).
  Of the eleven operations that transmit, only \<^verbatim>\<open>set_active_of_en_pin\<close> sends a checksum:
  its frame is the address, 0x85, the value and, as a fourth byte, the checksum of these
  three. Each of the ten others sends the address, its opcode and its payload, and no
  further byte. (Valid link; values, encoded speed and position within their fields.)
\<close>

theorem checksum_only_on_set_active_of_en_pin:
  assumes "valid_link self" and "0 \<le> v" and "v < 256"
    and "dir = ''CW'' \<or> dir = ''CCW''"
    and "0 \<le> (if dir = ''CW'' then sp OR 0x80 else sp)"
    and "(if dir = ''CW'' then sp OR 0x80 else sp) < 256"
    and "0 \<le> pos" and "pos < 65536"
  shows "calculate_checksum data = sum_list (map uint (concat data)) mod 256 \<and>
         transmits (set_active_of_en_pin v) self
           [[word_of_int (address self), 0x85, word_of_int v,
             word_of_int (calculate_checksum
                [[word_of_int (address self)], [0x85], [word_of_int v]])]] \<and>
         calculate_checksum [[word_of_int (address self)], [0x85], [word_of_int v]]
           = (address self + 0x85 + v) mod 256 \<and>
         transmits read_motor_shaft_status self [[word_of_int (address self), 0x3E]] \<and>
         transmits read_motor_shaft_angle self [[word_of_int (address self), 0x36]] \<and>
         transmits read_motor_shaft_error_angle self [[word_of_int (address self), 0x39]] \<and>
         transmits read_pulses_received self [[word_of_int (address self), 0x33]] \<and>
         transmits get_encoder_value self [[word_of_int (address self), 0x30]] \<and>
         transmits (set_subdivision v) self
           [[word_of_int (address self), 0x84, word_of_int v]] \<and>
         transmits (set_en_pin_status v) self
           [[word_of_int (address self), 0xF3, word_of_int v]] \<and>
         transmits stop self [[word_of_int (address self), 0xF7]] \<and>
         transmits (move dir sp) self
           [[word_of_int (address self), 0xF6,
             word_of_int (if dir = ''CW'' then sp OR 0x80 else sp)]] \<and>
         transmits (move_to dir sp pos) self
           [[word_of_int (address self), 0xFD,
             word_of_int (if dir = ''CW'' then sp OR 0x80 else sp),
             word_of_int (pos div 256), word_of_int pos]]"
proof -
  have addr: "0 \<le> address self" "address self < 256"
    using assms(1) by (simp_all add: valid_link_def)
  have c0: "calculate_checksum data = sum_list (map uint (concat data)) mod 256"
    by (rule calculate_checksum_mod)
  have c1: "calculate_checksum [[word_of_int (address self)], [0x85], [word_of_int v]]
           = (address self + 0x85 + v) mod 256"
    using addr assms(2,3) by (rule checksum_three)
  have t1: "transmits (set_active_of_en_pin v) self
           [[word_of_int (address self), 0x85, word_of_int v,
             word_of_int (calculate_checksum
                [[word_of_int (address self)], [0x85], [word_of_int v]])]]"
    using set_active_of_en_pin_run [OF assms(1,2,3)] by (rule transmits_exchange)
  have t2: "transmits read_motor_shaft_status self [[word_of_int (address self), 0x3E]]"
    using read_motor_shaft_status_run [OF assms(1)] by (rule transmits_exchange)
  have t3: "transmits read_motor_shaft_angle self [[word_of_int (address self), 0x36]]"
    using read_motor_shaft_angle_run [OF assms(1)] by (rule transmits_exchange)
  have t4: "transmits read_motor_shaft_error_angle self [[word_of_int (address self), 0x39]]"
    using read_motor_shaft_error_angle_run [OF assms(1)] by (rule transmits_exchange)
  have t5: "transmits read_pulses_received self [[word_of_int (address self), 0x33]]"
    using read_pulses_received_run [OF assms(1)] by (rule transmits_exchange)
  have t6: "transmits get_encoder_value self [[word_of_int (address self), 0x30]]"
    using get_encoder_value_run [OF assms(1)] by (rule transmits_exchange)
  have t7: "transmits (set_subdivision v) self
           [[word_of_int (address self), 0x84, word_of_int v]]"
    using set_subdivision_run [OF assms(1,2,3)] by (rule transmits_exchange)
  have t8: "transmits (set_en_pin_status v) self
           [[word_of_int (address self), 0xF3, word_of_int v]]"
    using set_en_pin_status_run [OF assms(1,2,3)] by (rule transmits_exchange)
  have t9: "transmits stop self [[word_of_int (address self), 0xF7]]"
    using stop_run [OF assms(1)] by (rule transmits_exchange)
  have t10: "transmits (move dir sp) self
           [[word_of_int (address self), 0xF6,
             word_of_int (if dir = ''CW'' then sp OR 0x80 else sp)]]"
    using move_run [OF assms(1,4,5,6)] by (rule transmits_exchange)
  have t11: "transmits (move_to dir sp pos) self
           [[word_of_int (address self), 0xFD,
             word_of_int (if dir = ''CW'' then sp OR 0x80 else sp),
             word_of_int (pos div 256), word_of_int pos]]"
    using move_to_run [OF assms(1,4,5,6,7,8)] by (rule transmits_exchange)
  from c0 c1 t1 t2 t3 t4 t5 t6 t7 t8 t9 t10 t11 show ?thesis by blast
qed

theorem checksum_only_on_set_active_of_en_pin_witness:
  "valid_link (example_link []) \<and> (0::int) \<le> 1 \<and> (1::int) < 256 \<and>
   (0::int) \<le> 0x70 OR 0x80 \<and> (0x70::int) OR 0x80 < 256 \<and> (0::int) \<le> 0x80 \<and> (0x80::int) < 65536 \<and>
   calculate_checksum [[0xE0], [0x85], [0x01]] = 0x66 \<and>
   tx_log (ser (snd (set_active_of_en_pin 1 (example_link [])))) = [[0xE0, 0x85, 0x01, 0x66]] \<and>
   tx_log (ser (snd (set_en_pin_status 1 (example_link [])))) = [[0xE0, 0xF3, 0x01]] \<and>
   tx_log (ser (snd (read_pulses_received (example_link [])))) = [[0xE0, 0x33]] \<and>
   tx_log (ser (snd (move ''CW'' 0x70 (example_link [])))) = [[0xE0, 0xF6, 0xF0]]"
  using checksum_only_on_set_active_of_en_pin
    [of "example_link []" 1 "''CW''" "0x70" "0x80" "[[0xE0], [0x85], [0x01]]"]
  by (simp add: transmits_def valid_link_def example_link_def example_line_def)

text \<open>
  C5 as the specification states it: every read operation returns a number for every reply, however short,
  and never raises. It fails for \<^verbatim>\<open>read_motor_shaft_status\<close>, which indexes byte 1 of the
  reply: on the empty reply of a timeout it raises IndexError.
\<close>

theorem reads_on_short_reply_counterexample:
  "valid_link (example_link []) \<and> received 2 (example_link []) = [] \<and>
   fst (read_motor_shaft_status (example_link [])) = Inl IndexError"
  by (simp add: read_motor_shaft_status_run example_link_valid py_index_def)
    (simp add: received_def pending_def example_link_def example_line_def)

text \<open>
  C5, amended: on a valid link, \<^verbatim>\<open>read_pulses_received\<close>, \<^verbatim>\<open>read_motor_shaft_angle\<close> and
  \<^verbatim>\<open>read_motor_shaft_error_angle\<close> return, for every reply, the value decoded from
  whatever bytes follow the first one, and never raise; \<^verbatim>\<open>read_motor_shaft_status\<close>
  returns byte 1 of a reply of two bytes and raises IndexError on a shorter one;
  \<^verbatim>\<open>get_encoder_value\<close> returns no value (None) and does not raise.
\<close>

theorem reads_decode_reply_as_is:
  assumes "valid_link self"
  shows "fst (read_pulses_received self) =
           Inr (from_bytes (py_slice 1 5 (received 5 self)) True) \<and>
         fst (read_motor_shaft_angle self) =
           Inr (from_bytes (py_slice 1 5 (received 5 self)) False) \<and>
         fst (read_motor_shaft_error_angle self) =
           Inr (from_bytes (py_slice 1 3 (received 3 self)) True) \<and>
         (2 \<le> length (received 2 self) \<longrightarrow>
            fst (read_motor_shaft_status self) = Inr (uint (received 2 self ! 1))) \<and>
         (length (received 2 self) < 2 \<longrightarrow>
            fst (read_motor_shaft_status self) = Inl IndexError) \<and>
         fst (get_encoder_value self) = Inr ()"
  using assms
  by (simp add: read_pulses_received_run read_motor_shaft_angle_run
      read_motor_shaft_error_angle_run read_motor_shaft_status_run get_encoder_value_run
      py_index_def)

theorem reads_decode_reply_as_is_witness:
  "valid_link (example_link [[0xE0, 0x7F]]) \<and>
   2 \<le> length (received 2 (example_link [[0xE0, 0x7F]])) \<and>
   fst (read_pulses_received (example_link [[0xE0, 0x7F]])) = Inr 127 \<and>
   fst (read_motor_shaft_angle (example_link [[0xE0, 0x7F]])) = Inr 127 \<and>
   fst (read_motor_shaft_error_angle (example_link [[0xE0, 0x7F]])) = Inr 127 \<and>
   fst (read_motor_shaft_status (example_link [[0xE0, 0x7F]])) = Inr 127 \<and>
   fst (get_encoder_value (example_link [[0xE0, 0x7F]])) = Inr () \<and>
   valid_link (example_link [[0xE0]]) \<and>
   length (received 2 (example_link [[0xE0]])) < 2 \<and>
   fst (read_pulses_received (example_link [[0xE0]])) = Inr 0 \<and>
   fst (read_motor_shaft_status (example_link [[0xE0]])) = Inl IndexError"
  using reads_decode_reply_as_is [of "example_link [[0xE0, 0x7F]]"]
    reads_decode_reply_as_is [of "example_link [[0xE0]]"]
  by (simp add: valid_link_def received_def pending_def example_link_def example_line_def
      py_slice_def from_bytes_def)

text \<open>
  C6. On a link with device address 0xE0, \<^verbatim>\<open>stop()\<close> makes one write, of exactly the
  two bytes E0 F7, and \<^verbatim>\<open>set_subdivision(0x08)\<close> makes one write, of exactly the three
  bytes E0 84 08: the address byte, the opcode byte and the payload, with nothing else.
\<close>

theorem stop_and_set_subdivision_frames:
  assumes "valid_link self" and "address self = 0xE0"
  shows "fst (stop self) = Inr () \<and> transmits stop self [[0xE0, 0xF7]] \<and>
         fst (set_subdivision 0x08 self) = Inr () \<and>
         transmits (set_subdivision 0x08) self [[0xE0, 0x84, 0x08]]"
proof -
  have s: "stop self = (Inr (), self\<lparr>ser := after_exchange [0xE0, 0xF7] 2 (ser self)\<rparr>)"
    using stop_run [of self] assms by simp
  have d: "set_subdivision 0x08 self =
      (Inr (), self\<lparr>ser := after_exchange [0xE0, 0x84, 0x08] 2 (ser self)\<rparr>)"
    using set_subdivision_run [of self "0x08"] assms by simp
  have "transmits stop self [[0xE0, 0xF7]]"
    using s by (rule transmits_exchange)
  moreover have "transmits (set_subdivision 0x08) self [[0xE0, 0x84, 0x08]]"
    using d by (rule transmits_exchange)
  ultimately show ?thesis using s d by simp
qed

theorem stop_and_set_subdivision_frames_witness:
  "valid_link (example_link []) \<and> address (example_link []) = 0xE0 \<and>
   fst (stop (example_link [])) = Inr () \<and>
   tx_log (ser (snd (stop (example_link [])))) = [[0xE0, 0xF7]] \<and>
   fst (set_subdivision 0x08 (example_link [])) = Inr () \<and>
   tx_log (ser (snd (set_subdivision 0x08 (example_link [])))) = [[0xE0, 0x84, 0x08]]"
  using stop_and_set_subdivision_frames [of "example_link []"]
  by (simp add: transmits_def valid_link_def example_link_def example_line_def)




text \<open>
  C8 as the specification states it: when the port cannot be opened, construction raises ConnectionError.
  It fails: the exception that reaches the caller is the transport's own
  SerialException, which no statement of the driver maps to ConnectionError.
\<close>

theorem construction_error_counterexample:
  "cannot_open ((example_line [])\<lparr>open_results := [False]\<rparr>) \<and>
   fst (init ''/dev/ttyUSB0'' 9600 1000 0xE0 ((example_line [])\<lparr>open_results := [False]\<rparr>))
     = Inl SerialException \<and>
   fst (init ''/dev/ttyUSB0'' 9600 1000 0xE0 ((example_line [])\<lparr>open_results := [False]\<rparr>))
     \<noteq> Inl ConnectionError"
  by (simp add: init_def serial_Serial_fails cannot_open_def)

text \<open>
  C8, amended: when the attempt to open the port fails, \<^verbatim>\<open>__init__\<close> fails with the
  SerialException of the transport's constructor, after exactly that one attempt: the
  line is left with one call of \<^verbatim>\<open>open\<close> counted and one answer used up, also when the
  next answer would have been a success (there is no retry). \<^verbatim>\<open>connect\<close> on its own
  catches the SerialException of a failed \<^verbatim>\<open>open\<close> and returns normally, after that
  one attempt and with the port still closed.
\<close>

theorem construction_propagates_transport_error:
  "(cannot_open line \<longrightarrow>
      init port' baudrate' timeout' address' line =
        (Inl SerialException, after_failed_open line)) \<and>
   (\<not> is_open (ser self) \<and> cannot_open (ser self) \<longrightarrow>
      connect self = (Inr (), self\<lparr>ser := after_failed_open (ser self)\<rparr>))"
  by (simp add: init_def serial_Serial_fails connect_def ser_open_fails)

theorem construction_propagates_transport_error_witness:
  "cannot_open ((example_line [])\<lparr>open_results := [False, True]\<rparr>) \<and>
   fst (init ''/dev/ttyUSB0'' 9600 1000 0xE0 ((example_line [])\<lparr>open_results := [False, True]\<rparr>))
     = Inl SerialException \<and>
   open_calls (snd (init ''/dev/ttyUSB0'' 9600 1000 0xE0
                      ((example_line [])\<lparr>open_results := [False, True]\<rparr>))) = 1 \<and>
   open_results (snd (init ''/dev/ttyUSB0'' 9600 1000 0xE0
                        ((example_line [])\<lparr>open_results := [False, True]\<rparr>))) = [True] \<and>
   \<not> is_open (ser ((example_link [])\<lparr>ser := example_line []\<lparr>open_results := [False, True]\<rparr>\<rparr>)) \<and>
   fst (connect ((example_link [])\<lparr>ser := example_line []\<lparr>open_results := [False, True]\<rparr>\<rparr>))
     = Inr () \<and>
   ser (snd (connect ((example_link [])\<lparr>ser := example_line []\<lparr>open_results := [False, True]\<rparr>\<rparr>)))
     = (example_line [])\<lparr>open_results := [True], open_calls := 1\<rparr>"
  using construction_propagates_transport_error
    [of "(example_line [])\<lparr>open_results := [False, True]\<rparr>" "''/dev/ttyUSB0''" 9600 1000 "0xE0"
        "(example_link [])\<lparr>ser := example_line []\<lparr>open_results := [False, True]\<rparr>\<rparr>"]
  by (simp add: cannot_open_def after_failed_open_def example_line_def)

text \<open>
  C9. When the reply has at most one byte (a timeout with nothing received, for example),
  \<^verbatim>\<open>read_pulses_received\<close>, \<^verbatim>\<open>read_motor_shaft_angle\<close> and
  \<^verbatim>\<open>read_motor_shaft_error_angle\<close> each return 0: the slice from byte 1 is empty and
  decodes to zero.
\<close>

theorem short_reply_reads_as_zero:
  assumes "valid_link self"
  shows "(length (received 5 self) \<le> 1 \<longrightarrow>
            fst (read_pulses_received self) = Inr 0 \<and>
            fst (read_motor_shaft_angle self) = Inr 0) \<and>
         (length (received 3 self) \<le> 1 \<longrightarrow>
            fst (read_motor_shaft_error_angle self) = Inr 0)"
  using assms
  by (simp add: read_pulses_received_run read_motor_shaft_angle_run
      read_motor_shaft_error_angle_run py_slice_short from_bytes_empty)

theorem short_reply_reads_as_zero_witness:
  "valid_link (example_link []) \<and> length (received 5 (example_link [])) \<le> 1 \<and>
   length (received 3 (example_link [])) \<le> 1 \<and>
   fst (read_pulses_received (example_link [])) = Inr 0 \<and>
   fst (read_motor_shaft_angle (example_link [])) = Inr 0 \<and>
   fst (read_motor_shaft_error_angle (example_link [])) = Inr 0"
  using short_reply_reads_as_zero [of "example_link []"]
  by (simp add: valid_link_def received_def pending_def example_link_def example_line_def)

text \<open>
  C10. A payload that does not fit its field raises OverflowError in the byte conversion,
  and the object with its transport is as before the call, so nothing has been written:
  a value outside 0..255 for \<^verbatim>\<open>set_subdivision\<close>, \<^verbatim>\<open>set_en_pin_status\<close> and
  \<^verbatim>\<open>set_active_of_en_pin\<close>; for \<^verbatim>\<open>move\<close> and \<^verbatim>\<open>move_to\<close> with a direction token that
  passed the direction check, a speed outside 0..255 once the direction bit is applied;
  for \<^verbatim>\<open>move_to\<close> also a position outside 0..65535.
\<close>

theorem out_of_range_payload_raises_overflow:
  "(v < 0 \<or> 255 < v \<longrightarrow>
      set_subdivision v self = (Inl OverflowError, self) \<and>
      set_en_pin_status v self = (Inl OverflowError, self) \<and>
      set_active_of_en_pin v self = (Inl OverflowError, self)) \<and>
   ((direction = ''CW'' \<or> direction = ''CCW'') \<and>
    ((if direction = ''CW'' then sp OR 0x80 else sp) < 0 \<or>
     255 < (if direction = ''CW'' then sp OR 0x80 else sp)) \<longrightarrow>
      move direction sp self = (Inl OverflowError, self)) \<and>
   ((dir = ''CW'' \<or> dir = ''CCW'') \<and>
    ((if dir = ''CW'' then sp' OR 0x80 else sp') < 0 \<or>
     255 < (if dir = ''CW'' then sp' OR 0x80 else sp') \<or> pos < 0 \<or> 65535 < pos) \<longrightarrow>
      move_to dir sp' pos self = (Inl OverflowError, self))"
proof -
  have a: "v < 0 \<or> 255 < v \<longrightarrow>
      set_subdivision v self = (Inl OverflowError, self) \<and>
      set_en_pin_status v self = (Inl OverflowError, self) \<and>
      set_active_of_en_pin v self = (Inl OverflowError, self)"
    by (simp add: set_subdivision_overflow set_en_pin_status_overflow
        set_active_of_en_pin_overflow)
  have b: "(direction = ''CW'' \<or> direction = ''CCW'') \<and>
    ((if direction = ''CW'' then sp OR 0x80 else sp) < 0 \<or>
     255 < (if direction = ''CW'' then sp OR 0x80 else sp)) \<longrightarrow>
      move direction sp self = (Inl OverflowError, self)"
    using move_overflow [of direction sp self] by blast
  have c: "(dir = ''CW'' \<or> dir = ''CCW'') \<and>
    ((if dir = ''CW'' then sp' OR 0x80 else sp') < 0 \<or>
     255 < (if dir = ''CW'' then sp' OR 0x80 else sp') \<or> pos < 0 \<or> 65535 < pos) \<longrightarrow>
      move_to dir sp' pos self = (Inl OverflowError, self)"
    using move_to_overflow [of dir sp' pos self] by blast
  from a b c show ?thesis by blast
qed

theorem out_of_range_payload_raises_overflow_witness:
  "(255::int) < 256 \<and> (255::int) < (0x100 OR 0x80) \<and> (65535::int) < 0x10000 \<and>
   set_subdivision 256 (example_link []) = (Inl OverflowError, example_link []) \<and>
   set_en_pin_status 256 (example_link []) = (Inl OverflowError, example_link []) \<and>
   set_active_of_en_pin 256 (example_link []) = (Inl OverflowError, example_link []) \<and>
   move ''CW'' 0x100 (example_link []) = (Inl OverflowError, example_link []) \<and>
   move_to ''CCW'' 0x70 0x10000 (example_link []) = (Inl OverflowError, example_link []) \<and>
   tx_log (ser (example_link [])) = []"
  using out_of_range_payload_raises_overflow
    [of 256 "example_link []" "''CW''" "0x100" "''CCW''" "0x70" "0x10000"]
  by (simp add: example_link_def example_line_def)

end
